theory Spec2Isabelle
  imports Main
begin

section \<open>The bounded cache\<close>

text \<open>
  Modelled from the spec: the class \<open>LRUCache\<close> (package \<open>@wireapp/lru-cache\<close>) is imported
  by \<open>InstanceService.ts\<close> and is not part of the sources. Section 4.1 of the specification
  gives its contract, quoted at each operation below. The cache is a record of its capacity
  and its entries, most recently used first. Cached objects are modelled as values; where
  the source changes a cached object in place, the model writes the new value back under
  the key the object was read from (\<open>lru_modify\<close>).
\<close>

record 'v LRUCache =
  capacity :: nat
  nodes :: "(string \<times> 'v) list"

text \<open>Modelled from the spec: the constructor; "capacity is fixed at construction".\<close>

definition new_LRUCache :: "nat \<Rightarrow> 'v LRUCache" where
  "new_LRUCache n = \<lparr>capacity = n, nodes = []\<rparr>"

definition remove_key :: "string \<Rightarrow> (string \<times> 'v) list \<Rightarrow> (string \<times> 'v) list" where
  "remove_key k xs = filter (\<lambda>kv. fst kv \<noteq> k) xs"

text \<open>Reading an entry without using it; the source has no such call, the theorems do.\<close>

definition lru_lookup :: "'v LRUCache \<Rightarrow> string \<Rightarrow> 'v option" where
  "lru_lookup c k = map_of (nodes c) k"

definition lru_keys :: "'v LRUCache \<Rightarrow> string list" where
  "lru_keys c = map fst (nodes c)"

text \<open>
  Modelled from the spec: \<open>get(key)\<close> "returns the value or absent, and on a hit marks the
  entry most-recently-used".
\<close>

definition lru_get :: "string \<Rightarrow> 'v LRUCache \<Rightarrow> 'v option \<times> 'v LRUCache" where
  "lru_get k c =
     (case lru_lookup c k of
        None \<Rightarrow> (None, c)
      | Some v \<Rightarrow> (Some v, c\<lparr>nodes := (k, v) # remove_key k (nodes c)\<rparr>))"

text \<open>
  Modelled from the spec: \<open>set(key, value)\<close> "inserts or updates an entry and marks it
  most-recently-used; if inserting a new key would exceed capacity, the least-recently-used
  entry is evicted first".
\<close>

definition lru_set :: "string \<Rightarrow> 'v \<Rightarrow> 'v LRUCache \<Rightarrow> 'v LRUCache" where
  "lru_set k v c =
     (if k \<in> set (lru_keys c)
      then c\<lparr>nodes := (k, v) # remove_key k (nodes c)\<rparr>
      else if capacity c \<le> length (nodes c)
      then c\<lparr>nodes := (k, v) # butlast (nodes c)\<rparr>
      else c\<lparr>nodes := (k, v) # nodes c\<rparr>)"

text \<open>
  Modelled from the spec: \<open>delete(key)\<close> "removes an entry if present (no error if
  absent)".
\<close>

definition lru_delete :: "string \<Rightarrow> 'v LRUCache \<Rightarrow> 'v LRUCache" where
  "lru_delete k c = c\<lparr>nodes := remove_key k (nodes c)\<rparr>"

text \<open>
  Modelled from the spec: \<open>getAll()\<close> "returns every live entry as a key-value mapping";
  the order of the entries is left open there, and no theorem below depends on it.
\<close>

definition lru_getAll :: "'v LRUCache \<Rightarrow> (string \<times> 'v) list" where
  "lru_getAll c = nodes c"

text \<open>In-place mutation of the object cached under a key: recency is untouched.\<close>

definition lru_modify :: "string \<Rightarrow> ('v \<Rightarrow> 'v) \<Rightarrow> 'v LRUCache \<Rightarrow> 'v LRUCache" where
  "lru_modify k f c =
     c\<lparr>nodes := map (\<lambda>kv. if fst kv = k then (fst kv, f (snd kv)) else kv) (nodes c)\<rparr>"

text \<open>
  Modelled from the spec: the capacity of \<open>new LRUCache()\<close>, "the implementation's default",
  used for every instance's message cache. It is taken to be 100; the general theorems
  below hold for every capacity.
\<close>

definition DEFAULT_CAPACITY :: nat where
  "DEFAULT_CAPACITY = 100"

section \<open>Messages\<close>

text \<open>
  The payload types come from the Messaging Client (\<open>@wireapp/core\<close>). Only the fields the
  service reads or writes are kept. Binary data is a string. A field whose name is taken
  in Isabelle carries a suffix: \<open>text_t\<close>, \<open>image_l\<close>, \<open>length_m\<close> for \<open>text\<close>, \<open>image\<close>,
  \<open>length\<close>; \<open>id_p\<close>, \<open>from_p\<close>, \<open>type_p\<close> for the \<open>id\<close>, \<open>from\<close>, \<open>type\<close> of a payload;
  \<open>from_c\<close> for the \<open>from\<close> of a confirmation record and \<open>confirmation_type\<close> for its
  \<open>type\<close>. Of an asset, \<open>original\<close> is the metadata descriptor, \<open>uploaded\<close> the descriptor of
  the uploaded data and \<open>preview\<close> the binary preview.
\<close>

record ImageData =
  data :: "string option"
  height :: nat
  width :: nat

record LinkPreviewContent =
  url :: string
  title :: "string option"
  image_l :: "ImageData option"

record MentionContent =
  start :: nat
  length_m :: nat
  userId :: string

record QuoteContent =
  quotedMessageId :: string
  quotedMessageSha256 :: string

record TextContent =
  text_t :: string
  linkPreviews :: "LinkPreviewContent list option"
  mentions :: "MentionContent list option"
  quote :: "QuoteContent option"
  expectsReadConfirmation :: "bool option"

record EditedTextContent = TextContent +
  originalMessageId :: string

record AssetContent =
  original :: "string option"
  uploaded :: "string option"
  preview :: "string option"

record ConfirmationContent =
  firstMessageId :: string
  moreMessageIds :: "string list option"
  confirmation_type :: nat

record ConfirmationWithSender = ConfirmationContent +
  from_c :: string

datatype PayloadBundleType =
    ASSET | ASSET_IMAGE | ASSET_META | CLEARED | CONFIRMATION | LOCATION
  | MESSAGE_DELETE | MESSAGE_EDIT | MESSAGE_HIDE | PING | TEXT
  | REACTION | TYPING | SESSION_RESET

datatype Content =
    TextC TextContent
  | EditedTextC EditedTextContent
  | AssetC AssetContent
  | ClearedC string
  | DeletedC string
  | HiddenC string
  | ConfirmationC ConfirmationContent
  | LocationC int int
  | OtherC

record MessagePayload =
  content :: Content
  conversation :: string
  from_p :: string
  id_p :: string
  type_p :: PayloadBundleType
  confirmations :: "ConfirmationWithSender list option"

section \<open>Helpers of \<open>utils\<close>\<close>

text \<open>
  \<open>stripLinkPreview\<close>, \<open>isAssetContent\<close> and \<open>stripAsset\<close> are imported from \<open>./utils\<close>,
  which is not part of the sources.
\<close>

text \<open>
  Modelled from the spec: \<open>stripLinkPreview\<close>; section 4.2 has "strip any embedded preview
  binary image data before storing (keep metadata only)".
\<close>

definition stripLinkPreview :: "LinkPreviewContent \<Rightarrow> LinkPreviewContent" where
  "stripLinkPreview lp = lp\<lparr>image_l := map_option (\<lambda>i. i\<lparr>data := None\<rparr>) (image_l lp)\<rparr>"

text \<open>
  Modelled from the spec: \<open>isAssetContent\<close>, the type guard for the content of an asset
  (metadata or data) message.
\<close>

definition isAssetContent :: "Content \<Rightarrow> bool" where
  "isAssetContent c = (case c of AssetC a \<Rightarrow> True | _ \<Rightarrow> False)"

text \<open>
  Modelled from the spec: \<open>stripAsset\<close>; section 4.2 has "strip binary preview data" of an
  asset before it is stored.
\<close>

definition stripAsset :: "Content \<Rightarrow> Content" where
  "stripAsset c = (case c of AssetC a \<Rightarrow> AssetC (a\<lparr>preview := None\<rparr>) | _ \<Rightarrow> c)"

section \<open>The event listeners of \<open>attachListeners\<close>\<close>

text \<open>
  Each listener is a function from the payload and the instance's message cache to the
  new cache. A cast \<open>payload.content as T\<close> is a case distinction on the content; content
  of another shape has none of the properties the listener reads, and the reads yield
  nothing there.
\<close>

text \<open>\<open>linkPreviewContent.linkPreviews.forEach(stripLinkPreview)\<close>, when the list is set.\<close>

definition stripLinkPreviews :: "Content \<Rightarrow> Content" where
  "stripLinkPreviews c =
     (case c of
        TextC t \<Rightarrow> TextC (t\<lparr>linkPreviews := map_option (map stripLinkPreview) (linkPreviews t)\<rparr>)
      | EditedTextC e \<Rightarrow>
          EditedTextC (e\<lparr>linkPreviews := map_option (map stripLinkPreview) (linkPreviews e)\<rparr>)
      | _ \<Rightarrow> c)"

definition on_TEXT :: "MessagePayload \<Rightarrow> MessagePayload LRUCache \<Rightarrow> MessagePayload LRUCache" where
  "on_TEXT payload messages =
     lru_set (id_p payload) (payload\<lparr>content := stripLinkPreviews (content payload)\<rparr>) messages"

text \<open>\<open>payload.content.original = metaPayload.content.original\<close>\<close>

definition original_of :: "Content \<Rightarrow> string option" where
  "original_of c = (case c of AssetC a \<Rightarrow> original a | _ \<Rightarrow> None)"

definition set_original :: "string option \<Rightarrow> Content \<Rightarrow> Content" where
  "set_original orig c = (case c of AssetC a \<Rightarrow> AssetC (a\<lparr>original := orig\<rparr>) | _ \<Rightarrow> c)"

definition on_ASSET :: "MessagePayload \<Rightarrow> MessagePayload LRUCache \<Rightarrow> MessagePayload LRUCache" where
  "on_ASSET payload messages =
     (let (metaPayload, messages1) = lru_get (id_p payload) messages;
          payload1 =
            (case metaPayload of
               None \<Rightarrow> payload
             | Some mp \<Rightarrow>
                 if isAssetContent (content payload) \<and> isAssetContent (content mp)
                 then payload\<lparr>content := set_original (original_of (content mp)) (content payload)\<rparr>
                 else payload);
          payload2 = payload1\<lparr>content := stripAsset (content payload1)\<rparr>
      in lru_set (id_p payload) payload2 messages1)"

definition on_ASSET_META :: "MessagePayload \<Rightarrow> MessagePayload LRUCache \<Rightarrow> MessagePayload LRUCache" where
  "on_ASSET_META payload messages = lru_set (id_p payload) payload messages"

definition on_ASSET_IMAGE :: "MessagePayload \<Rightarrow> MessagePayload LRUCache \<Rightarrow> MessagePayload LRUCache" where
  "on_ASSET_IMAGE payload messages = lru_set (id_p payload) payload messages"

definition on_MESSAGE_EDIT :: "MessagePayload \<Rightarrow> MessagePayload LRUCache \<Rightarrow> MessagePayload LRUCache" where
  "on_MESSAGE_EDIT payload messages =
     (let messages1 = lru_set (id_p payload) payload messages
      in case content payload of
           EditedTextC editedContent \<Rightarrow> lru_delete (originalMessageId editedContent) messages1
         | _ \<Rightarrow> messages1)"

text \<open>
  \<open>for (const message of instance.messages)\<close> visits the cached values while the body
  deletes from the same cache, by the \<open>id\<close> of the visited message. The iterator belongs to
  the cache class; it is taken to walk the live entries from the most recently used one:
  \<open>todo\<close> is what is left to visit, and an entry deleted before its turn is not visited.
\<close>

function clear_loop ::
  "string \<Rightarrow> (string \<times> MessagePayload) list \<Rightarrow> MessagePayload LRUCache \<Rightarrow> MessagePayload LRUCache"
where
  "clear_loop conversationId [] messages = messages"
| "clear_loop conversationId (kv # todo) messages =
     (if conversation (snd kv) = conversationId
      then clear_loop conversationId (remove_key (id_p (snd kv)) todo)
             (lru_delete (id_p (snd kv)) messages)
      else clear_loop conversationId todo messages)"
  by pat_completeness auto
termination
  by (relation "measure (\<lambda>(c, todo, m). length todo)")
     (auto simp: remove_key_def less_Suc_eq_le)

definition on_CLEARED :: "MessagePayload \<Rightarrow> MessagePayload LRUCache \<Rightarrow> MessagePayload LRUCache" where
  "on_CLEARED payload messages =
     (case content payload of
        ClearedC conversationId \<Rightarrow> clear_loop conversationId (nodes messages) messages
      | _ \<Rightarrow> messages)"

definition on_LOCATION :: "MessagePayload \<Rightarrow> MessagePayload LRUCache \<Rightarrow> MessagePayload LRUCache" where
  "on_LOCATION payload messages = lru_set (id_p payload) payload messages"

definition on_MESSAGE_DELETE :: "MessagePayload \<Rightarrow> MessagePayload LRUCache \<Rightarrow> MessagePayload LRUCache" where
  "on_MESSAGE_DELETE payload messages =
     (case content payload of DeletedC messageId \<Rightarrow> lru_delete messageId messages | _ \<Rightarrow> messages)"

definition on_MESSAGE_HIDE :: "MessagePayload \<Rightarrow> MessagePayload LRUCache \<Rightarrow> MessagePayload LRUCache" where
  "on_MESSAGE_HIDE payload messages =
     (case content payload of HiddenC messageId \<Rightarrow> lru_delete messageId messages | _ \<Rightarrow> messages)"

definition on_PING :: "MessagePayload \<Rightarrow> MessagePayload LRUCache \<Rightarrow> MessagePayload LRUCache" where
  "on_PING payload messages = lru_set (id_p payload) payload messages"

text \<open>Decimal numerals, for the property names of an array.\<close>

definition digit_char :: "nat \<Rightarrow> char" where
  "digit_char d = ''0123456789'' ! d"

fun string_of_nat :: "nat \<Rightarrow> string" where
  "string_of_nat n =
     (if n < 10 then [digit_char n]
      else string_of_nat (n div 10) @ [digit_char (n mod 10)])"

text \<open>
  \<open>for (const key in array)\<close> enumerates the property names of the array, which are its
  indices written as decimal strings, in ascending order.
\<close>

definition for_in_keys :: "'a list \<Rightarrow> string list" where
  "for_in_keys xs = map string_of_nat [0..<length xs]"

definition push_confirmation :: "ConfirmationWithSender \<Rightarrow> MessagePayload \<Rightarrow> MessagePayload" where
  "push_confirmation c m =
     m\<lparr>confirmations := Some ((case confirmations m of None \<Rightarrow> [] | Some cs \<Rightarrow> cs) @ [c])\<rparr>"

text \<open>
  One lookup of the listener: the cached object is changed in place (the entry it was read
  from sees the change) and stored again under its own \<open>id\<close>.

  Cached objects are values here. When the key read differs from the \<open>id\<close> of the object,
  the source leaves one object under both keys, and the model one value under each. The
  two agree until a later confirmation changes that object in place: the source then shows
  the change under both keys, the model under the key read and under the \<open>id\<close>. On a cache
  that stores every message under its own id (\<open>keyed\<close> below) no object comes to sit under
  two keys, and no theorem below projects a confirmation on a cache where one does.
\<close>

definition confirm_message ::
  "ConfirmationWithSender \<Rightarrow> string \<Rightarrow> MessagePayload LRUCache \<Rightarrow> MessagePayload LRUCache" where
  "confirm_message confirmationWithSender messageId messages =
     (case lru_get messageId messages of
        (None, messages1) \<Rightarrow> messages1
      | (Some messageToConfirm, messages1) \<Rightarrow>
          (let confirmed = push_confirmation confirmationWithSender messageToConfirm
           in lru_set (id_p confirmed) confirmed
                (lru_modify messageId (\<lambda>_. confirmed) messages1)))"

definition on_CONFIRMATION :: "MessagePayload \<Rightarrow> MessagePayload LRUCache \<Rightarrow> MessagePayload LRUCache" where
  "on_CONFIRMATION payload messages =
     (case content payload of
        ConfirmationC confirmationContent \<Rightarrow>
          (let confirmationWithSender =
                 \<lparr>firstMessageId = firstMessageId confirmationContent,
                  moreMessageIds = moreMessageIds confirmationContent,
                  confirmation_type = confirmation_type confirmationContent,
                  from_c = from_p payload\<rparr>;
               messages1 =
                 confirm_message confirmationWithSender (firstMessageId confirmationContent) messages
           in case moreMessageIds confirmationContent of
                None \<Rightarrow> messages1
              | Some ids \<Rightarrow>
                  fold (confirm_message confirmationWithSender) (for_in_keys ids) messages1)
      | _ \<Rightarrow> messages)"

text \<open>The Messaging Client emits each payload under its type; other types have no listener.\<close>

definition attachListeners :: "MessagePayload \<Rightarrow> MessagePayload LRUCache \<Rightarrow> MessagePayload LRUCache" where
  "attachListeners payload messages =
     (case type_p payload of
        TEXT \<Rightarrow> on_TEXT payload messages
      | ASSET \<Rightarrow> on_ASSET payload messages
      | ASSET_META \<Rightarrow> on_ASSET_META payload messages
      | ASSET_IMAGE \<Rightarrow> on_ASSET_IMAGE payload messages
      | MESSAGE_EDIT \<Rightarrow> on_MESSAGE_EDIT payload messages
      | CLEARED \<Rightarrow> on_CLEARED payload messages
      | LOCATION \<Rightarrow> on_LOCATION payload messages
      | MESSAGE_DELETE \<Rightarrow> on_MESSAGE_DELETE payload messages
      | MESSAGE_HIDE \<Rightarrow> on_MESSAGE_HIDE payload messages
      | PING \<Rightarrow> on_PING payload messages
      | CONFIRMATION \<Rightarrow> on_CONFIRMATION payload messages
      | _ \<Rightarrow> messages)"


text \<open>A message cache is keyed when every message in it is stored under its own id.\<close>

definition keyed :: "MessagePayload LRUCache \<Rightarrow> bool" where
  "keyed cache \<longleftrightarrow> (\<forall>kv\<in>set (nodes cache). id_p (snd kv) = fst kv)"

section \<open>The Messaging Client and the rest of the environment\<close>

text \<open>
  What a call into the Messaging Client answers is decided outside the service, so it is a
  parameter of every operation: a record of the answers. A call that rejects answers with
  the error object it rejects with; \<open>response_message\<close> is \<open>error.response.data.message\<close>
  where that path exists. The calls the service makes are recorded, in order, in the
  state (\<open>client_calls\<close>), each with the id of the instance whose account is called.

  In \<open>Env\<close>, \<open>uuid\<close> is the value of \<open>new UUID(4).format()\<close>, \<open>version\<close> the version of
  \<open>package.json\<close>, \<open>BACKEND_PRODUCTION\<close> and \<open>BACKEND_STAGING\<close> the two constants of
  \<open>APIClient.BACKEND\<close>, \<open>engine_init\<close> the answer of \<open>engine.init\<close>, and \<open>logout i\<close> the answer of
  \<open>account.logout()\<close> on the account of instance \<open>i\<close>. A builder chain
  \<open>createText(c, m, id).withLinkPreviews(l).withMentions(me).withQuote(q)
  .withReadConfirmation(e).build()\<close> is one application of \<open>createText\<close> to all of its
  arguments, an argument that the chain does not give being \<open>None\<close>.
\<close>

record Rejection =
  response_message :: "string option"
  description :: string

datatype Thrown = Error string | Upstream Rejection

record BackendData =
  name_b :: string
  rest :: string
  ws :: string

record LoginData =
  email :: string
  password :: string

record ClientInfo =
  classification :: string
  cookieLabel :: string
  label :: "string option"
  model :: string

record InstanceCreationOptions =
  backend :: "string option"
  customBackend :: "BackendData option"
  deviceClass :: "string option"
  deviceLabel :: "string option"
  deviceName :: "string option"
  instanceName :: "string option"
  loginData :: LoginData

record MessageBuilder =
  createText ::
    "string \<Rightarrow> string \<Rightarrow> string option \<Rightarrow> LinkPreviewContent list option \<Rightarrow>
     MentionContent list option \<Rightarrow> QuoteContent option \<Rightarrow> bool option \<Rightarrow> MessagePayload"
  createEditedText ::
    "string \<Rightarrow> string \<Rightarrow> string \<Rightarrow> string option \<Rightarrow> LinkPreviewContent list option \<Rightarrow>
     MentionContent list option \<Rightarrow> QuoteContent option \<Rightarrow> bool option \<Rightarrow> MessagePayload"
  createLinkPreview :: "LinkPreviewContent \<Rightarrow> Rejection + LinkPreviewContent"
  createConfirmation :: "string \<Rightarrow> string \<Rightarrow> nat \<Rightarrow> string list option \<Rightarrow> MessagePayload"

record Env =
  uuid :: string
  version :: string
  BACKEND_PRODUCTION :: BackendData
  BACKEND_STAGING :: BackendData
  engine_init :: "Rejection option"
  login :: "LoginData \<Rightarrow> bool \<Rightarrow> ClientInfo \<Rightarrow> Rejection option"
  listen :: "Rejection option"
  logout :: "string \<Rightarrow> Rejection option"
  messageBuilder :: MessageBuilder
  send :: "MessagePayload \<Rightarrow> Rejection + MessagePayload"
  deleteMessageEveryone :: "string \<Rightarrow> string \<Rightarrow> string list \<Rightarrow> Rejection option"

datatype Call =
    Login LoginData bool ClientInfo
  | Listen
  | Logout
  | SetMessageLevelTimer string nat
  | Send MessagePayload
  | DeleteMessageEveryone string string "string list"

section \<open>The instance service\<close>

text \<open>
  \<open>service\<close> says whether \<open>account.service\<close> is set. The handles \<open>client\<close> and \<open>engine\<close>
  of an instance are not read by the operations below and are left out.
\<close>

record Account =
  service :: bool

record Instance =
  account :: Account
  backendType :: BackendData
  id_i :: string
  messages :: "MessagePayload LRUCache"
  name_i :: string

record InstanceService =
  maximumInstances :: nat
  cachedInstances :: "Instance LRUCache"
  client_calls :: "(string \<times> Call) list"

definition new_InstanceService :: "nat option \<Rightarrow> InstanceService" where
  "new_InstanceService maximumInstances_opt =
     (let n = (case maximumInstances_opt of None \<Rightarrow> 100 | Some n \<Rightarrow> n)
      in \<lparr>maximumInstances = n, cachedInstances = new_LRUCache n, client_calls = []\<rparr>)"

definition quoted :: "string \<Rightarrow> string" where
  "quoted x = [CHR 0x22] @ x @ [CHR 0x22]"

definition instance_not_found :: "string \<Rightarrow> Thrown" where
  "instance_not_found instanceId = Error (''Instance '' @ quoted instanceId @ '' not found.'')"

definition message_not_found :: "string \<Rightarrow> Thrown" where
  "message_not_found messageId = Error (''Message with ID '' @ quoted messageId @ '' not found.'')"

definition service_not_set :: "string \<Rightarrow> Thrown" where
  "service_not_set instanceId =
     Error (''Account service for instance '' @ instanceId @ '' not set.'')"

definition called :: "string \<Rightarrow> Call \<Rightarrow> InstanceService \<Rightarrow> InstanceService" where
  "called instanceId c s = s\<lparr>client_calls := client_calls s @ [(instanceId, c)]\<rparr>"

text \<open>
  The operations hold the instance object they looked up and change its message cache in
  place: the registry entry sees the change, its recency does not move.
\<close>

definition update_messages ::
  "string \<Rightarrow> (MessagePayload LRUCache \<Rightarrow> MessagePayload LRUCache) \<Rightarrow> InstanceService \<Rightarrow>
   InstanceService" where
  "update_messages instanceId f s =
     s\<lparr>cachedInstances :=
         lru_modify instanceId (\<lambda>i. i\<lparr>messages := f (messages i)\<rparr>) (cachedInstances s)\<rparr>"

text \<open>The message cache of a registered instance, read without touching recency.\<close>

definition messages_of :: "InstanceService \<Rightarrow> string \<Rightarrow> MessagePayload LRUCache option" where
  "messages_of s instanceId = map_option messages (lru_lookup (cachedInstances s) instanceId)"

definition parseBackend :: "Env \<Rightarrow> (string + BackendData) option \<Rightarrow> BackendData" where
  "parseBackend env b =
     (case b of
        Some (Inl str) \<Rightarrow>
          if str = ''production'' \<or> str = ''prod'' then BACKEND_PRODUCTION env
          else BACKEND_STAGING env
      | None \<Rightarrow> BACKEND_STAGING env
      | Some (Inr custom) \<Rightarrow> custom)"

text \<open>\<open>a || b\<close> on optional strings: the empty string is falsy.\<close>

definition or_else :: "string option \<Rightarrow> string \<Rightarrow> string" where
  "or_else a b = (case a of None \<Rightarrow> b | Some x \<Rightarrow> if x = [] then b else x)"

definition getInstance :: "string \<Rightarrow> InstanceService \<Rightarrow> (Thrown + Instance) \<times> InstanceService" where
  "getInstance instanceId s =
     (case lru_get instanceId (cachedInstances s) of
        (None, cache) \<Rightarrow> (Inl (instance_not_found instanceId), s\<lparr>cachedInstances := cache\<rparr>)
      | (Some instance, cache) \<Rightarrow> (Inr instance, s\<lparr>cachedInstances := cache\<rparr>))"

definition instanceExists :: "string \<Rightarrow> InstanceService \<Rightarrow> bool \<times> InstanceService" where
  "instanceExists instanceId s =
     (case lru_get instanceId (cachedInstances s) of
        (None, cache) \<Rightarrow> (False, s\<lparr>cachedInstances := cache\<rparr>)
      | (Some instance, cache) \<Rightarrow> (True, s\<lparr>cachedInstances := cache\<rparr>))"

text \<open>The \<open>catch\<close> block of \<open>createInstance\<close>.\<close>

definition login_failure :: "Rejection \<Rightarrow> Thrown" where
  "login_failure error =
     (case response_message error of
        Some m \<Rightarrow> if m \<noteq> [] then Error (''Backend error: '' @ m) else Upstream error
      | None \<Rightarrow> Upstream error)"

definition clientInfo :: "Env \<Rightarrow> InstanceCreationOptions \<Rightarrow> ClientInfo" where
  "clientInfo env options =
     \<lparr>classification = or_else (deviceClass options) ''desktop'',
      cookieLabel = ''default'',
      label = deviceLabel options,
      model = or_else (deviceName options) (''E2E Test Server v'' @ version env)\<rparr>"

definition createInstance ::
  "Env \<Rightarrow> InstanceCreationOptions \<Rightarrow> InstanceService \<Rightarrow> (Thrown + string) \<times> InstanceService" where
  "createInstance env options s =
     (let instanceId = uuid env;
          backendType =
            parseBackend env
              (case backend options of
                 Some b \<Rightarrow> if b \<noteq> [] then Some (Inl b) else map_option Inr (customBackend options)
               | None \<Rightarrow> map_option Inr (customBackend options))
      in case engine_init env of
           Some error \<Rightarrow> (Inl (Upstream error), s)
         | None \<Rightarrow>
             (let info = clientInfo env options;
                  s1 = called instanceId (Login (loginData options) True info) s
              in case login env (loginData options) True info of
                   Some error \<Rightarrow> (Inl (login_failure error), s1)
                 | None \<Rightarrow>
                     (let s2 = called instanceId Listen s1
                      in case listen env of
                           Some error \<Rightarrow> (Inl (login_failure error), s2)
                         | None \<Rightarrow>
                             (let instance =
                                    \<lparr>account = \<lparr>service = True\<rparr>,
                                     backendType = backendType,
                                     id_i = instanceId,
                                     messages = new_LRUCache DEFAULT_CAPACITY,
                                     name_i = or_else (instanceName options) []\<rparr>
                              in (Inr instanceId,
                                  s2\<lparr>cachedInstances :=
                                       lru_set instanceId instance (cachedInstances s2)\<rparr>)))))"

definition deleteInstance ::
  "Env \<Rightarrow> string \<Rightarrow> InstanceService \<Rightarrow> (Thrown + unit) \<times> InstanceService" where
  "deleteInstance env instanceId s =
     (case getInstance instanceId s of
        (Inl error, s1) \<Rightarrow> (Inl error, s1)
      | (Inr instance, s1) \<Rightarrow>
          (let s2 = called instanceId Logout s1
           in case logout env instanceId of
                Some error \<Rightarrow> (Inl (Upstream error), s2)
              | None \<Rightarrow>
                  (Inr (), s2\<lparr>cachedInstances := lru_delete instanceId (cachedInstances s2)\<rparr>)))"

definition getMessages ::
  "string \<Rightarrow> string \<Rightarrow> InstanceService \<Rightarrow> (Thrown + MessagePayload list) \<times> InstanceService" where
  "getMessages instanceId conversationId s =
     (case getInstance instanceId s of
        (Inl error, s1) \<Rightarrow> (Inl error, s1)
      | (Inr instance, s1) \<Rightarrow>
          if service (account instance)
          then (Inr (filter (\<lambda>message. conversation message = conversationId)
                       (map snd (lru_getAll (messages instance)))), s1)
          else (Inl (Error ''Account service not set.''), s1))"


text \<open>
  \<open>createInstance\<close> attaches the listeners to the account of the new instance; from then on
  every payload the Messaging Client emits for the instance runs through them and changes
  the message cache of that instance. Operations and events are taken one at a time: no
  event is projected while an operation waits for the Messaging Client.
\<close>

definition emit :: "string \<Rightarrow> MessagePayload \<Rightarrow> InstanceService \<Rightarrow> InstanceService" where
  "emit instanceId payload s = update_messages instanceId (attachListeners payload) s"

definition sendText ::
  "Env \<Rightarrow> string \<Rightarrow> string \<Rightarrow> string \<Rightarrow> LinkPreviewContent option \<Rightarrow>
   MentionContent list option \<Rightarrow> QuoteContent option \<Rightarrow> bool option \<Rightarrow> nat option \<Rightarrow>
   InstanceService \<Rightarrow> (Thrown + string) \<times> InstanceService" where
  "sendText env instanceId conversationId message linkPreview mentions_opt quote_opt
     expectsReadConfirmation_opt expireAfterMillis s =
     (case getInstance instanceId s of
        (Inl error, s1) \<Rightarrow> (Inl error, s1)
      | (Inr instance, s1) \<Rightarrow>
          if service (account instance)
          then
            (let s2 = called instanceId
                        (SetMessageLevelTimer conversationId
                           (case expireAfterMillis of None \<Rightarrow> 0 | Some t \<Rightarrow> t)) s1;
                 payload = createText (messageBuilder env) conversationId message None None
                             mentions_opt quote_opt expectsReadConfirmation_opt;
                 s3 = called instanceId (Send payload) s2
             in case send env payload of
                  Inl error \<Rightarrow> (Inl (Upstream error), s3)
                | Inr sentMessage \<Rightarrow>
                    (case linkPreview of
                       None \<Rightarrow>
                         (Inr (id_p sentMessage),
                          update_messages instanceId (lru_set (id_p sentMessage) sentMessage) s3)
                     | Some previewContent \<Rightarrow>
                         (case createLinkPreview (messageBuilder env) previewContent of
                            Inl error \<Rightarrow> (Inl (Upstream error), s3)
                          | Inr linkPreviewPayload \<Rightarrow>
                              (let editedWithPreviewPayload =
                                     createText (messageBuilder env) conversationId message
                                       (Some (id_p sentMessage)) (Some [linkPreviewPayload])
                                       mentions_opt quote_opt expectsReadConfirmation_opt;
                                   s4 = called instanceId (Send editedWithPreviewPayload) s3
                               in case send env editedWithPreviewPayload of
                                    Inl error \<Rightarrow> (Inl (Upstream error), s4)
                                  | Inr sent2 \<Rightarrow>
                                      (let sentMessage2 =
                                             sent2\<lparr>content := stripLinkPreviews (content sent2)\<rparr>
                                       in (Inr (id_p sentMessage2),
                                           update_messages instanceId
                                             (lru_set (id_p sentMessage2) sentMessage2) s4))))))
          else (Inl (service_not_set instanceId), s1))"

definition sendEditedText ::
  "Env \<Rightarrow> string \<Rightarrow> string \<Rightarrow> string \<Rightarrow> string \<Rightarrow> LinkPreviewContent option \<Rightarrow>
   MentionContent list option \<Rightarrow> QuoteContent option \<Rightarrow> bool option \<Rightarrow>
   InstanceService \<Rightarrow> (Thrown + string) \<times> InstanceService" where
  "sendEditedText env instanceId conversationId originalMessageId_arg newMessageText newLinkPreview
     newMentions newQuote expectsReadConfirmation_opt s =
     (case getInstance instanceId s of
        (Inl error, s1) \<Rightarrow> (Inl error, s1)
      | (Inr instance, s1) \<Rightarrow>
          if service (account instance)
          then
            (let editedPayload =
                   createEditedText (messageBuilder env) conversationId newMessageText
                     originalMessageId_arg None None newMentions newQuote expectsReadConfirmation_opt;
                 s2 = called instanceId (Send editedPayload) s1
             in case send env editedPayload of
                  Inl error \<Rightarrow> (Inl (Upstream error), s2)
                | Inr editedMessage \<Rightarrow>
                    (case newLinkPreview of
                       None \<Rightarrow>
                         (Inr (id_p editedMessage),
                          update_messages instanceId
                            (lru_set originalMessageId_arg editedMessage) s2)
                     | Some previewContent \<Rightarrow>
                         (case createLinkPreview (messageBuilder env) previewContent of
                            Inl error \<Rightarrow> (Inl (Upstream error), s2)
                          | Inr linkPreviewPayload \<Rightarrow>
                              (let editedWithPreviewPayload =
                                     createEditedText (messageBuilder env) conversationId
                                       newMessageText originalMessageId_arg
                                       (Some (id_p editedMessage)) (Some [linkPreviewPayload])
                                       newMentions newQuote expectsReadConfirmation_opt;
                                   s3 = called instanceId (Send editedWithPreviewPayload) s2
                               in case send env editedWithPreviewPayload of
                                    Inl error \<Rightarrow> (Inl (Upstream error), s3)
                                  | Inr edited2 \<Rightarrow>
                                      (let editedMessage2 =
                                             edited2\<lparr>content := stripLinkPreviews (content edited2)\<rparr>
                                       in (Inr (id_p editedMessage2),
                                           update_messages instanceId
                                             (lru_set originalMessageId_arg editedMessage2) s3))))))
          else (Inl (service_not_set instanceId), s1))"

text \<open>\<open>instance.messages.get(messageId)\<close> on the instance held by the operation.\<close>

definition get_message ::
  "string \<Rightarrow> string \<Rightarrow> InstanceService \<Rightarrow> MessagePayload option \<times> InstanceService" where
  "get_message instanceId messageId s =
     (case lru_lookup (cachedInstances s) instanceId of
        None \<Rightarrow> (None, s)
      | Some instance \<Rightarrow>
          (fst (lru_get messageId (messages instance)),
           update_messages instanceId (\<lambda>m. snd (lru_get messageId m)) s))"

text \<open>
  The loop over \<open>moreMessageIds\<close> of the ephemeral confirmations; the error of a missing
  further message names \<open>firstMessageId\<close>, as the source does.
\<close>

fun delete_further ::
  "Env \<Rightarrow> string \<Rightarrow> string \<Rightarrow> string \<Rightarrow> string list \<Rightarrow> InstanceService \<Rightarrow>
   (Thrown + unit) \<times> InstanceService" where
  "delete_further env instanceId conversationId firstMessageId_arg [] s = (Inr (), s)"
| "delete_further env instanceId conversationId firstMessageId_arg (messageId # moreIds) s =
     (case get_message instanceId messageId s of
        (None, s1) \<Rightarrow> (Inl (message_not_found firstMessageId_arg), s1)
      | (Some furtherMessage, s1) \<Rightarrow>
          (let s2 = called instanceId
                      (DeleteMessageEveryone conversationId messageId [from_p furtherMessage]) s1
           in case deleteMessageEveryone env conversationId messageId [from_p furtherMessage] of
                Some error \<Rightarrow> (Inl (Upstream error), s2)
              | None \<Rightarrow> delete_further env instanceId conversationId firstMessageId_arg moreIds s2))"

text \<open>
  \<open>sendEphemeralConfirmationDelivered\<close> and \<open>sendEphemeralConfirmationRead\<close> have the same
  body up to the confirmation type they pass (0 and 1).
\<close>

definition sendEphemeralConfirmation ::
  "nat \<Rightarrow> Env \<Rightarrow> string \<Rightarrow> string \<Rightarrow> string \<Rightarrow> string list option \<Rightarrow> InstanceService \<Rightarrow>
   (Thrown + string) \<times> InstanceService" where
  "sendEphemeralConfirmation confirmationType env instanceId conversationId firstMessageId_arg
     moreMessageIds_arg s =
     (case getInstance instanceId s of
        (Inl error, s1) \<Rightarrow> (Inl error, s1)
      | (Inr instance, s1) \<Rightarrow>
          (case get_message instanceId firstMessageId_arg s1 of
             (None, s2) \<Rightarrow> (Inl (message_not_found firstMessageId_arg), s2)
           | (Some message, s2) \<Rightarrow>
               if service (account instance)
               then
                 (let confirmationPayload =
                        createConfirmation (messageBuilder env) conversationId firstMessageId_arg
                          confirmationType moreMessageIds_arg;
                      s3 = called instanceId (Send confirmationPayload) s2
                  in case send env confirmationPayload of
                       Inl error \<Rightarrow> (Inl (Upstream error), s3)
                     | Inr sent \<Rightarrow>
                         (let s4 = called instanceId
                                     (DeleteMessageEveryone conversationId firstMessageId_arg
                                        [from_p message]) s3
                          in case deleteMessageEveryone env conversationId firstMessageId_arg
                                    [from_p message] of
                               Some error \<Rightarrow> (Inl (Upstream error), s4)
                             | None \<Rightarrow>
                                 (case delete_further env instanceId conversationId
                                         firstMessageId_arg
                                         (case moreMessageIds_arg of None \<Rightarrow> [] | Some ids \<Rightarrow> ids)
                                         s4 of
                                    (Inl error, s5) \<Rightarrow> (Inl error, s5)
                                  | (Inr u, s5) \<Rightarrow> (Inr (name_i instance), s5))))
               else (Inl (service_not_set instanceId), s2)))"

definition sendEphemeralConfirmationDelivered ::
  "Env \<Rightarrow> string \<Rightarrow> string \<Rightarrow> string \<Rightarrow> string list option \<Rightarrow> InstanceService \<Rightarrow>
   (Thrown + string) \<times> InstanceService" where
  "sendEphemeralConfirmationDelivered = sendEphemeralConfirmation 0"

definition sendEphemeralConfirmationRead ::
  "Env \<Rightarrow> string \<Rightarrow> string \<Rightarrow> string \<Rightarrow> string list option \<Rightarrow> InstanceService \<Rightarrow>
   (Thrown + string) \<times> InstanceService" where
  "sendEphemeralConfirmationRead = sendEphemeralConfirmation 1"


section \<open>A sample Messaging Client and sample data\<close>

text \<open>
  A Messaging Client that accepts every call: its builder fills the payload from its
  arguments (message ids \<open>A\<close> for a text and \<open>B\<close> for an edit unless one is given) and \<open>send\<close>
  resolves with the payload it was given. The concrete instances below are stated on it.
\<close>

definition example_builder :: MessageBuilder where
  "example_builder =
     \<lparr>createText = (\<lambda>c m i l me q e.
        \<lparr>content = TextC \<lparr>text_t = m, linkPreviews = l, mentions = me, quote = q,
                           expectsReadConfirmation = e\<rparr>,
         conversation = c, from_p = ''self'',
         id_p = (case i of None \<Rightarrow> ''A'' | Some x \<Rightarrow> x),
         type_p = TEXT, confirmations = None\<rparr>),
      createEditedText = (\<lambda>c m orig i l me q e.
        \<lparr>content = EditedTextC \<lparr>text_t = m, linkPreviews = l, mentions = me, quote = q,
                                 expectsReadConfirmation = e, originalMessageId = orig\<rparr>,
         conversation = c, from_p = ''self'',
         id_p = (case i of None \<Rightarrow> ''B'' | Some x \<Rightarrow> x),
         type_p = MESSAGE_EDIT, confirmations = None\<rparr>),
      createLinkPreview = Inr,
      createConfirmation = (\<lambda>c f t ids.
        \<lparr>content = ConfirmationC \<lparr>firstMessageId = f, moreMessageIds = ids,
                                   confirmation_type = t\<rparr>,
         conversation = c, from_p = ''self'', id_p = ''K'',
         type_p = CONFIRMATION, confirmations = None\<rparr>)\<rparr>"

definition example_env :: Env where
  "example_env =
     \<lparr>uuid = ''I'', version = ''1.16.1'',
      BACKEND_PRODUCTION = \<lparr>name_b = ''production'', rest = ''https://prod'', ws = ''wss://prod''\<rparr>,
      BACKEND_STAGING = \<lparr>name_b = ''staging'', rest = ''https://staging'', ws = ''wss://staging''\<rparr>,
      engine_init = None,
      login = (\<lambda>d p info. None),
      listen = None,
      logout = (\<lambda>i. None),
      messageBuilder = example_builder,
      send = Inr,
      deleteMessageEveryone = (\<lambda>c m u. None)\<rparr>"

definition example_options :: InstanceCreationOptions where
  "example_options =
     \<lparr>backend = Some ''production'', customBackend = None, deviceClass = None,
      deviceLabel = None, deviceName = None, instanceName = None,
      loginData = \<lparr>email = ''test@example.com'', password = ''supersecret''\<rparr>\<rparr>"

definition example_service :: InstanceService where
  "example_service = snd (createInstance example_env example_options (new_InstanceService None))"

definition example_instance :: Instance where
  "example_instance =
     \<lparr>account = \<lparr>service = True\<rparr>,
      backendType = \<lparr>name_b = ''production'', rest = ''https://prod'', ws = ''wss://prod''\<rparr>,
      id_i = ''I'', messages = new_LRUCache DEFAULT_CAPACITY, name_i = []\<rparr>"

definition example_cleared :: "string \<Rightarrow> MessagePayload" where
  "example_cleared c =
     \<lparr>content = ClearedC c, conversation = ''self'', from_p = ''self'', id_p = ''Z'',
      type_p = CLEARED, confirmations = None\<rparr>"

definition example_text :: "string \<Rightarrow> string \<Rightarrow> MessagePayload" where
  "example_text i c = createText example_builder c ''Hello from Jasmine'' (Some i) None None None None"

definition example_confirmation :: MessagePayload where
  "example_confirmation =
     \<lparr>content = ConfirmationC \<lparr>firstMessageId = ''M1'', moreMessageIds = Some [''M2'', ''M3''],
                                confirmation_type = 1\<rparr>,
      conversation = ''X'', from_p = ''U'', id_p = ''K'', type_p = CONFIRMATION,
      confirmations = None\<rparr>"

definition example_edit :: MessagePayload where
  "example_edit = createEditedText example_builder ''X'' ''Hello again'' ''A'' None None None None None"

definition example_asset_meta :: MessagePayload where
  "example_asset_meta =
     \<lparr>content = AssetC \<lparr>original = Some ''report.pdf'', uploaded = None, preview = None\<rparr>,
      conversation = ''X'', from_p = ''U'', id_p = ''F'', type_p = ASSET_META,
      confirmations = None\<rparr>"

definition example_asset_data :: MessagePayload where
  "example_asset_data =
     \<lparr>content = AssetC \<lparr>original = None, uploaded = Some ''asset-key'', preview = Some ''bytes''\<rparr>,
      conversation = ''X'', from_p = ''U'', id_p = ''F'', type_p = ASSET,
      confirmations = None\<rparr>"

definition example_rejection :: Rejection where
  "example_rejection = \<lparr>response_message = Some ''Invalid credentials'', description = ''403''\<rparr>"

definition example_inbox :: "MessagePayload LRUCache" where
  "example_inbox =
     attachListeners (example_text ''M3'' ''X'')
       (attachListeners (example_text ''M1'' ''X'') (new_LRUCache DEFAULT_CAPACITY))"

definition example_sent :: InstanceService where
  "example_sent =
     snd (sendText example_env ''I'' ''X'' ''Hello from Jasmine'' None None None None None
            example_service)"

definition example_edited :: InstanceService where
  "example_edited =
     snd (sendEditedText example_env ''I'' ''X'' ''A'' ''Hello again'' None None None None
            example_sent)"

definition example_confirmation_A :: MessagePayload where
  "example_confirmation_A =
     \<lparr>content = ConfirmationC \<lparr>firstMessageId = ''A'', moreMessageIds = None,
                                confirmation_type = 0\<rparr>,
      conversation = ''X'', from_p = ''U'', id_p = ''K'', type_p = CONFIRMATION,
      confirmations = None\<rparr>"

definition example_confirmed :: InstanceService where
  "example_confirmed = emit ''I'' example_confirmation_A example_edited"

definition example_edit_again :: MessagePayload where
  "example_edit_again =
     createEditedText example_builder ''X'' ''Third text'' ''B'' (Some ''C'') None None None None"

definition example_three :: "MessagePayload LRUCache" where
  "example_three =
     attachListeners (example_text ''M3'' ''C1'')
       (attachListeners (example_text ''M2'' ''C2'')
          (attachListeners (example_text ''M1'' ''C1'') (new_LRUCache DEFAULT_CAPACITY)))"

lemmas example_defs =
  example_builder_def example_env_def example_options_def example_service_def
  example_instance_def example_text_def

lemmas lru_defs =
  new_LRUCache_def remove_key_def lru_lookup_def lru_keys_def lru_get_def lru_set_def
  lru_delete_def lru_getAll_def lru_modify_def DEFAULT_CAPACITY_def

lemmas service_defs =
  new_InstanceService_def called_def update_messages_def parseBackend_def or_else_def
  getInstance_def createInstance_def clientInfo_def Let_def

lemmas listener_defs = attachListeners_def on_TEXT_def on_ASSET_def on_ASSET_META_def
  on_MESSAGE_EDIT_def on_CLEARED_def on_CONFIRMATION_def stripLinkPreviews_def
  isAssetContent_def stripAsset_def original_of_def set_original_def confirm_message_def
  push_confirmation_def for_in_keys_def digit_char_def

section \<open>Facts about the bounded cache\<close>

lemma map_of_remove_key:
  "map_of (remove_key k xs) k' = (if k' = k then None else map_of xs k')"
  by (induction xs) (auto simp: remove_key_def)

lemma lookup_delete:
  "lru_lookup (lru_delete k c) k' = (if k' = k then None else lru_lookup c k')"
  by (simp add: lru_lookup_def lru_delete_def map_of_remove_key)

lemma lookup_set_same: "lru_lookup (lru_set k v c) k = Some v"
  by (simp add: lru_lookup_def lru_set_def)



lemma lookup_get:
  "lru_lookup (snd (lru_get k c)) k' = lru_lookup c k'"
  by (auto simp: lru_get_def lru_lookup_def map_of_remove_key split: option.splits)

lemma fst_get: "fst (lru_get k c) = lru_lookup c k"
  by (simp add: lru_get_def split: option.splits)

lemma get_miss: "lru_lookup c k = None \<Longrightarrow> lru_get k c = (None, c)"
  by (simp add: lru_get_def)

lemma map_of_modify:
  "map_of (map (\<lambda>kv. if fst kv = k then (fst kv, f (snd kv)) else kv) xs) k' =
     (if k' = k then map_option f (map_of xs k) else map_of xs k')"
  by (induction xs) auto

lemma lookup_modify:
  "lru_lookup (lru_modify k f c) k' =
     (if k' = k then map_option f (lru_lookup c k) else lru_lookup c k')"
  by (simp add: lru_lookup_def lru_modify_def map_of_modify)

lemma nodes_set_same:
  "filter (\<lambda>kv. fst kv = k) (nodes (lru_set k v c)) = [(k, v)]"
  by (auto simp: lru_set_def remove_key_def lru_keys_def filter_empty_conv dest: in_set_butlastD)

lemma remove_key_absent: "k \<notin> fst ` set xs \<Longrightarrow> remove_key k xs = xs"
  by (induction xs) (auto simp: remove_key_def)

lemma nodes_set_others:
  "kv \<in> set (nodes (lru_set k v c)) \<Longrightarrow> kv = (k, v) \<or> (fst kv \<noteq> k \<and> kv \<in> set (nodes c))"
  by (auto simp: lru_set_def remove_key_def lru_keys_def split: if_splits dest: in_set_butlastD)

lemma filter_key_other:
  "B \<noteq> A \<Longrightarrow>
   filter (\<lambda>x. fst x \<noteq> A \<and> fst x = B) xs = filter (\<lambda>x. fst x = B) xs"
  by (induction xs) auto

section \<open>Facts about the registry\<close>

lemma getInstance_unknown:
  "lru_lookup (cachedInstances s) i = None \<Longrightarrow> getInstance i s = (Inl (instance_not_found i), s)"
  by (simp add: getInstance_def get_miss)

lemma getInstance_registered:
  "lru_lookup (cachedInstances s) i = Some inst \<Longrightarrow>
   getInstance i s = (Inr inst, s\<lparr>cachedInstances := snd (lru_get i (cachedInstances s))\<rparr>)"
  by (simp add: getInstance_def lru_get_def)

lemma getMessages_registered:
  assumes "lru_lookup (cachedInstances s) i = Some inst" "service (account inst)"
  shows "fst (getMessages i conv s) =
           Inr (filter (\<lambda>m. conversation m = conv) (map snd (lru_getAll (messages inst))))"
  using assms by (simp add: getMessages_def getInstance_registered)

lemma lookup_emit:
  "lru_lookup (cachedInstances s) i = Some inst \<Longrightarrow>
   lru_lookup (cachedInstances (emit i payload s)) i =
     Some (inst\<lparr>messages := attachListeners payload (messages inst)\<rparr>)"
  by (simp add: emit_def update_messages_def lookup_modify)

lemma lookup_update_messages:
  "lru_lookup (cachedInstances (update_messages i f s)) j =
     (if j = i then map_option (\<lambda>inst. inst\<lparr>messages := f (messages inst)\<rparr>)
                      (lru_lookup (cachedInstances s) i)
      else lru_lookup (cachedInstances s) j)"
  by (simp add: update_messages_def lookup_modify)

lemma cachedInstances_called [simp]: "cachedInstances (called i c s) = cachedInstances s"
  by (simp add: called_def)

lemma example_service_lookup:
  "lru_lookup (cachedInstances example_service) ''I'' = Some example_instance"
  by (simp add: example_defs lru_defs service_defs)

lemma get_message_miss:
  assumes "lru_lookup (cachedInstances s) i = Some inst" "lru_lookup (messages inst) k = None"
  shows "fst (get_message i k s) = None"
    and "client_calls (snd (get_message i k s)) = client_calls s"
    and "messages_of (snd (get_message i k s)) i = Some (messages inst)"
  using assms
  by (simp_all add: get_message_def fst_get update_messages_def messages_of_def lookup_modify
      get_miss)

lemma sendText_success:
  assumes reg: "lru_lookup (cachedInstances s) i = Some inst"
      and res: "sendText env i X msg lp me q e t s = (Inr mid, s')"
  shows "\<exists>sm mid0 lps sent.
           send env (createText (messageBuilder env) X msg mid0 lps me q e) = Inr sent
         \<and> (sm = sent \<or> sm = sent\<lparr>content := stripLinkPreviews (content sent)\<rparr>)
         \<and> id_p sm = mid
         \<and> service (account inst)
         \<and> lru_lookup (cachedInstances s') i = Some (inst\<lparr>messages := lru_set mid sm (messages inst)\<rparr>)"
  using res
  by (fastforce simp: sendText_def getInstance_registered [OF reg] Let_def lookup_update_messages
      lookup_get reg split: if_splits sum.splits option.splits)


section \<open>Caches keyed by message id\<close>

text \<open>
  Every listener keeps a keyed cache keyed: the listeners store a message under its own id
  and delete by key. So does \<open>sendText\<close>; \<open>sendEditedText\<close> is the one operation that stores
  a message under another key than its id.
\<close>

lemma keyed_set: "keyed c \<Longrightarrow> id_p v = k \<Longrightarrow> keyed (lru_set k v c)"
  unfolding keyed_def by (auto dest!: nodes_set_others)

lemma keyed_delete: "keyed c \<Longrightarrow> keyed (lru_delete k c)"
  by (auto simp: keyed_def lru_delete_def remove_key_def)

lemma keyed_lookup: "keyed c \<Longrightarrow> lru_lookup c k = Some m \<Longrightarrow> id_p m = k"
  by (fastforce simp: keyed_def lru_lookup_def dest: map_of_SomeD)

lemma keyed_get: "keyed c \<Longrightarrow> keyed (snd (lru_get k c))"
proof (cases "lru_lookup c k")
  case None
  assume "keyed c"
  with None show ?thesis by (simp add: get_miss)
next
  case (Some m)
  assume k: "keyed c"
  then have "id_p m = k" using Some by (rule keyed_lookup)
  with k Some show ?thesis
    by (auto simp: keyed_def lru_get_def remove_key_def)
qed

lemma keyed_modify: "keyed c \<Longrightarrow> id_p v = k \<Longrightarrow> keyed (lru_modify k (\<lambda>_. v) c)"
  by (auto simp: keyed_def lru_modify_def)

lemma confirm_message_keyed: "keyed c \<Longrightarrow> keyed (confirm_message cws k c)"
proof (cases "lru_lookup c k")
  case None
  assume "keyed c"
  with None show ?thesis by (simp add: confirm_message_def get_miss)
next
  case (Some m)
  assume k: "keyed c"
  then have idm: "id_p m = k" using Some by (rule keyed_lookup)
  obtain c1 where g: "lru_get k c = (Some m, c1)" and c1: "c1 = snd (lru_get k c)"
    using Some by (simp add: lru_get_def)
  have "keyed c1" using k c1 by (simp add: keyed_get)
  then have "keyed (lru_set k (push_confirmation cws m)
                 (lru_modify k (\<lambda>_. push_confirmation cws m) c1))"
    using idm by (intro keyed_set keyed_modify) (simp_all add: push_confirmation_def)
  then show ?thesis
    using idm by (simp add: confirm_message_def g Let_def push_confirmation_def)
qed

lemma fold_confirm_keyed: "keyed c \<Longrightarrow> keyed (fold (confirm_message cws) ks c)"
  by (induction ks arbitrary: c) (simp_all add: confirm_message_keyed)

lemma clear_loop_keyed: "keyed c \<Longrightarrow> keyed (clear_loop cid todo c)"
  by (induction cid todo c rule: clear_loop.induct) (simp_all add: keyed_delete)

lemma attachListeners_keyed: "keyed c \<Longrightarrow> keyed (attachListeners payload c)"
  by (cases "type_p payload")
     (auto simp: attachListeners_def on_TEXT_def on_ASSET_def on_ASSET_META_def
        on_ASSET_IMAGE_def on_MESSAGE_EDIT_def on_CLEARED_def on_LOCATION_def
        on_MESSAGE_DELETE_def on_MESSAGE_HIDE_def on_PING_def on_CONFIRMATION_def Let_def
        split_beta
        intro!: keyed_set keyed_delete keyed_get clear_loop_keyed confirm_message_keyed
          fold_confirm_keyed
        split: Content.splits option.splits)

section \<open>C1: confirmations\<close>

text \<open>
  The lookup that the listener makes for one message id: a cached message stored under its
  own id gains exactly the new record at the end of its confirmation list, and an id with no
  entry leaves the cache as it was.
\<close>

lemma confirm_message_hit:
  assumes "lru_lookup cache k = Some m" and "id_p m = k"
  shows "lru_lookup (confirm_message c k cache) k = Some (push_confirmation c m)"
  using assms
  by (simp add: confirm_message_def lru_get_def push_confirmation_def Let_def lookup_set_same)

lemma confirm_message_miss:
  "lru_lookup cache k = None \<Longrightarrow> confirm_message c k cache = cache"
  by (simp add: confirm_message_def get_miss)

text \<open>
  C1 (the code departs from the claim). Claim: for a confirmation event with primary target
  M1 and secondary targets [M2, M3], where only M1 and M3 are cached, the cached messages
  at M1 and at M3 each gain one confirmation record, no entry is created for M2 and nothing
  is raised. The listener walks the secondary ids with \<open>for (... in ...)\<close>, which yields the
  array indices "0" and "1" and not the ids: on the cache holding M1 and M3, the event
  \<open>example_confirmation\<close> (sender U, first M1, more [M2, M3]) adds the record to M1 only; M3
  keeps no confirmation list, M2 has no entry.
\<close>

theorem confirmation_first_target_only:
  "map_option confirmations (lru_lookup example_inbox ''M1'') = Some None
 \<and> map_option confirmations (lru_lookup example_inbox ''M3'') = Some None
 \<and> lru_lookup example_inbox ''M2'' = None
 \<and> map_option confirmations
      (lru_lookup (attachListeners example_confirmation example_inbox) ''M1'') =
     Some (Some [\<lparr>firstMessageId = ''M1'', moreMessageIds = Some [''M2'', ''M3''],
                  confirmation_type = 1, from_c = ''U''\<rparr>])
 \<and> map_option confirmations
      (lru_lookup (attachListeners example_confirmation example_inbox) ''M3'') = Some None
 \<and> lru_lookup (attachListeners example_confirmation example_inbox) ''M2'' = None"
  by (simp add: example_defs example_inbox_def example_confirmation_def lru_defs listener_defs)

text \<open>
  The indices are looked up instead: a cached message whose id is the string "1" receives
  the record of a confirmation that does not name it.
\<close>

lemma confirmation_reaches_index:
  "map_option confirmations
     (lru_lookup
        (attachListeners example_confirmation
           (attachListeners (example_text ''1'' ''X'') (new_LRUCache DEFAULT_CAPACITY))) ''1'') =
   Some (Some [\<lparr>firstMessageId = ''M1'', moreMessageIds = Some [''M2'', ''M3''],
                confirmation_type = 1, from_c = ''U''\<rparr>])"
  by (simp add: example_defs example_confirmation_def lru_defs listener_defs)

section \<open>C2 and C3: deleting an instance\<close>

text \<open>
  C2 as stated fails. Claim: delete on an id twice in sequence, or on an id that was never
  created, never throws. On the registry holding the one instance I, \<open>deleteInstance\<close> of
  the unknown id J throws the not-found error, and after a first delete of I has succeeded
  the second delete of I throws it too.
\<close>

theorem deleteInstance_throws:
  "deleteInstance example_env ''J'' example_service = (Inl (instance_not_found ''J''), example_service)
 \<and> fst (deleteInstance example_env ''I'' example_service) = Inr ()
 \<and> fst (deleteInstance example_env ''I'' (snd (deleteInstance example_env ''I'' example_service))) =
     Inl (instance_not_found ''I'')"
  by (simp add: example_defs lru_defs service_defs deleteInstance_def)

text \<open>
  C2, amended: \<open>deleteInstance\<close> on an id that is not registered throws the not-found error
  and leaves the state of the service as it was; an id whose delete has succeeded is not
  registered any more, so a second delete in sequence throws not-found and the state stays
  the one the first delete left.
\<close>

theorem deleteInstance_unregistered:
  "(lru_lookup (cachedInstances s) i = None \<longrightarrow>
      deleteInstance env i s = (Inl (instance_not_found i), s))
 \<and> (deleteInstance env i s = (Inr (), s1) \<longrightarrow>
      deleteInstance env' i s1 = (Inl (instance_not_found i), s1))"
proof (intro conjI impI)
  assume "lru_lookup (cachedInstances s) i = None"
  then show "deleteInstance env i s = (Inl (instance_not_found i), s)"
    by (simp add: deleteInstance_def getInstance_unknown)
next
  assume ok: "deleteInstance env i s = (Inr (), s1)"
  have "lru_lookup (cachedInstances s1) i = None"
    using ok
    by (auto simp: deleteInstance_def getInstance_def called_def lookup_delete Let_def
        split: option.splits prod.splits sum.splits)
  then show "deleteInstance env' i s1 = (Inl (instance_not_found i), s1)"
    by (simp add: deleteInstance_def getInstance_unknown)
qed

text \<open>The amended C2 at the registry holding the instance I: the unknown id J, and I twice.\<close>

theorem deleteInstance_unregistered_witness:
  "lru_lookup (cachedInstances example_service) ''J'' = None
 \<and> deleteInstance example_env ''J'' example_service =
     (Inl (instance_not_found ''J''), example_service)
 \<and> fst (deleteInstance example_env ''I'' example_service) = Inr ()
 \<and> deleteInstance example_env ''I'' (snd (deleteInstance example_env ''I'' example_service)) =
     (Inl (instance_not_found ''I''), snd (deleteInstance example_env ''I'' example_service))"
proof -
  have unknown: "lru_lookup (cachedInstances example_service) ''J'' = None"
    by (simp add: example_defs lru_defs service_defs)
  have first: "fst (deleteInstance example_env ''I'' example_service) = Inr ()"
    by (simp add: example_defs lru_defs service_defs deleteInstance_def)
  then have pair: "deleteInstance example_env ''I'' example_service =
                     (Inr (), snd (deleteInstance example_env ''I'' example_service))"
    by (metis prod.collapse)
  show ?thesis
    using deleteInstance_unregistered [of example_service "''J''" example_env]
      deleteInstance_unregistered [of example_service "''I''" example_env
        "snd (deleteInstance example_env ''I'' example_service)" example_env]
      unknown first pair
    by simp
qed

text \<open>
  C3: \<open>deleteInstance\<close> of an id that is not registered fails with the not-found error (and
  changes nothing). For a registered id it calls \<open>logout\<close> on the instance's Messaging
  Client, and that is the only call it makes; when the logout resolves, the instance is
  removed from the registry and every other instance stays; when the logout rejects, the
  rejection is thrown and the instance is still registered, so the removal comes after
  the logout.
\<close>

theorem deleteInstance_contract:
  "(lru_lookup (cachedInstances s) i = None \<longrightarrow>
      deleteInstance env i s = (Inl (instance_not_found i), s))
 \<and> (\<forall>inst. lru_lookup (cachedInstances s) i = Some inst \<longrightarrow>
      client_calls (snd (deleteInstance env i s)) = client_calls s @ [(i, Logout)]
    \<and> (logout env i = None \<longrightarrow>
          fst (deleteInstance env i s) = Inr ()
        \<and> lru_lookup (cachedInstances (snd (deleteInstance env i s))) i = None
        \<and> (\<forall>j. j \<noteq> i \<longrightarrow> lru_lookup (cachedInstances (snd (deleteInstance env i s))) j =
                           lru_lookup (cachedInstances s) j))
    \<and> (\<forall>error. logout env i = Some error \<longrightarrow>
          fst (deleteInstance env i s) = Inl (Upstream error)
        \<and> lru_lookup (cachedInstances (snd (deleteInstance env i s))) i = Some inst))"
  by (auto simp: deleteInstance_def getInstance_unknown getInstance_registered called_def
      Let_def lookup_delete lookup_get split: option.splits)

text \<open>
  C3 at the registry holding the instance I: the unknown id J, the delete of I with a
  logout that resolves and with one that rejects.
\<close>

theorem deleteInstance_contract_witness:
  "lru_lookup (cachedInstances example_service) ''J'' = None
 \<and> deleteInstance example_env ''J'' example_service =
     (Inl (instance_not_found ''J''), example_service)
 \<and> lru_lookup (cachedInstances example_service) ''I'' = Some example_instance
 \<and> logout example_env ''I'' = None
 \<and> client_calls (snd (deleteInstance example_env ''I'' example_service)) =
     client_calls example_service @ [(''I'', Logout)]
 \<and> fst (deleteInstance example_env ''I'' example_service) = Inr ()
 \<and> lru_lookup (cachedInstances (snd (deleteInstance example_env ''I'' example_service))) ''I'' = None
 \<and> fst (deleteInstance (example_env\<lparr>logout := \<lambda>i. Some example_rejection\<rparr>) ''I'' example_service) =
     Inl (Upstream example_rejection)
 \<and> lru_lookup (cachedInstances
       (snd (deleteInstance (example_env\<lparr>logout := \<lambda>i. Some example_rejection\<rparr>) ''I''
               example_service))) ''I'' = Some example_instance"
proof -
  have unknown: "lru_lookup (cachedInstances example_service) ''J'' = None"
    by (simp add: example_defs lru_defs service_defs)
  have ok: "logout example_env ''I'' = None" by (simp add: example_defs)
  have bad: "logout (example_env\<lparr>logout := \<lambda>i. Some example_rejection\<rparr>) ''I'' =
               Some example_rejection" by simp
  show ?thesis
    using deleteInstance_contract [of example_service "''J''" example_env]
      deleteInstance_contract [of example_service "''I''" example_env]
      deleteInstance_contract [of example_service "''I''"
        "example_env\<lparr>logout := \<lambda>i. Some example_rejection\<rparr>"]
      unknown example_service_lookup ok bad
    by simp
qed

section \<open>C4: a rejected login\<close>

text \<open>
  C4: when the login of the Messaging Client is rejected, \<open>createInstance\<close> fails with the
  error its \<open>catch\<close> block makes of the rejection (\<open>Backend error: ...\<close> when the rejection
  carries a backend message, the rejection itself otherwise), and the cache of instances is
  unchanged; in particular what is registered under the generated id is what was there
  before.
\<close>

theorem createInstance_login_rejected:
  assumes "engine_init env = None"
      and "login env (loginData options) True (clientInfo env options) = Some rejection"
  shows "fst (createInstance env options s) = Inl (login_failure rejection)
       \<and> cachedInstances (snd (createInstance env options s)) = cachedInstances s
       \<and> lru_lookup (cachedInstances (snd (createInstance env options s))) (uuid env) =
           lru_lookup (cachedInstances s) (uuid env)"
  using assms by (simp add: createInstance_def Let_def called_def)

text \<open>C4 at a backend that answers the login with "Invalid credentials", on a new service.\<close>

theorem createInstance_login_rejected_witness:
  "engine_init (example_env\<lparr>login := \<lambda>d p info. Some example_rejection\<rparr>) = None
 \<and> fst (createInstance (example_env\<lparr>login := \<lambda>d p info. Some example_rejection\<rparr>)
          example_options (new_InstanceService None)) = Inl (Error ''Backend error: Invalid credentials'')
 \<and> cachedInstances
      (snd (createInstance (example_env\<lparr>login := \<lambda>d p info. Some example_rejection\<rparr>)
              example_options (new_InstanceService None))) =
     cachedInstances (new_InstanceService None)"
proof -
  let ?env = "example_env\<lparr>login := \<lambda>d p info. Some example_rejection\<rparr>"
  have h1: "engine_init ?env = None" by (simp add: example_defs)
  have h2: "login ?env (loginData example_options) True (clientInfo ?env example_options) =
              Some example_rejection" by simp
  have "login_failure example_rejection = Error ''Backend error: Invalid credentials''"
    by (simp add: login_failure_def example_rejection_def)
  with h1 createInstance_login_rejected [OF h1 h2, of "new_InstanceService None"]
  show ?thesis by simp
qed

section \<open>C5: an edit event\<close>

text \<open>
  The listener by keys, on any cache: the edit payload is cached under its id B, and the
  key A of the original has no entry.
\<close>

lemma on_MESSAGE_EDIT_keys:
  assumes "content payload = EditedTextC editedContent"
      and "originalMessageId editedContent = A"
      and "id_p payload = B"
      and "B \<noteq> A"
  shows "lru_lookup (on_MESSAGE_EDIT payload cache) B = Some payload"
    and "lru_lookup (on_MESSAGE_EDIT payload cache) A = None"
  using assms by (simp_all add: on_MESSAGE_EDIT_def lookup_delete lookup_set_same)

lemma on_MESSAGE_EDIT_nodes:
  assumes "content payload = EditedTextC editedContent"
      and "originalMessageId editedContent = A"
      and "kv \<in> set (nodes (on_MESSAGE_EDIT payload cache))"
  shows "fst kv \<noteq> A \<and> (kv = (id_p payload, payload) \<or> kv \<in> set (nodes cache))"
  using assms
  by (auto simp: on_MESSAGE_EDIT_def lru_delete_def remove_key_def Let_def
      dest: nodes_set_others)

text \<open>
  On a keyed cache the claim holds as \<open>getMessages\<close> shows it: the edit payload is returned,
  no returned message has the id A, and the only returned message with the id B is the
  payload.
\<close>

lemma edit_projection_keyed:
  assumes "type_p payload = MESSAGE_EDIT"
      and "content payload = EditedTextC editedContent"
      and "originalMessageId editedContent = A"
      and "id_p payload = B"
      and "B \<noteq> A"
      and "lru_lookup (cachedInstances s) i = Some inst"
      and "service (account inst)"
      and "keyed (messages inst)"
  shows "\<exists>ms. fst (getMessages i (conversation payload) (emit i payload s)) = Inr ms
            \<and> payload \<in> set ms
            \<and> (\<forall>m\<in>set ms. id_p m \<noteq> A)
            \<and> (\<forall>m\<in>set ms. id_p m = B \<longrightarrow> m = payload)"
proof -
  let ?cache = "on_MESSAGE_EDIT payload (messages inst)"
  let ?ms = "filter (\<lambda>m. conversation m = conversation payload) (map snd (lru_getAll ?cache))"
  have al: "attachListeners payload (messages inst) = ?cache"
    using assms(1) by (simp add: attachListeners_def)
  have reg: "lru_lookup (cachedInstances (emit i payload s)) i = Some (inst\<lparr>messages := ?cache\<rparr>)"
    using lookup_emit [OF assms(6), of payload] al by simp
  have gm: "fst (getMessages i (conversation payload) (emit i payload s)) = Inr ?ms"
    using getMessages_registered [OF reg] assms(7) by simp
  have "(B, payload) \<in> set (nodes ?cache)"
    using on_MESSAGE_EDIT_keys(1) [OF assms(2-5), of "messages inst"]
    by (simp add: lru_lookup_def map_of_SomeD)
  then have mem: "payload \<in> set ?ms" by (force simp: lru_getAll_def)
  have each: "\<And>kv. kv \<in> set (nodes ?cache) \<Longrightarrow>
                 id_p (snd kv) = fst kv \<and> fst kv \<noteq> A \<and> (fst kv = B \<longrightarrow> snd kv = payload)"
  proof -
    fix kv assume kv: "kv \<in> set (nodes ?cache)"
    from on_MESSAGE_EDIT_nodes [OF assms(2,3) kv]
    have notA: "fst kv \<noteq> A"
      and src: "kv = (id_p payload, payload) \<or> kv \<in> set (nodes (messages inst))" by auto
    have k: "id_p (snd kv) = fst kv"
      using src assms(8) by (auto simp: keyed_def)
    have "fst kv = B \<longrightarrow> snd kv = payload"
    proof
      assume "fst kv = B"
      then have "kv \<in> set (filter (\<lambda>x. fst x = B) (nodes ?cache))" using kv by simp
      also have "filter (\<lambda>x. fst x = B) (nodes ?cache) = [(B, payload)]"
        using assms(2-5) nodes_set_same [of B payload "messages inst"]
        by (simp add: on_MESSAGE_EDIT_def lru_delete_def remove_key_def Let_def
            filter_key_other)
      finally show "snd kv = payload" by simp
    qed
    with k notA show "id_p (snd kv) = fst kv \<and> fst kv \<noteq> A \<and> (fst kv = B \<longrightarrow> snd kv = payload)"
      by simp
  qed
  have "\<forall>m\<in>set ?ms. id_p m \<noteq> A \<and> (id_p m = B \<longrightarrow> m = payload)"
  proof
    fix m assume "m \<in> set ?ms"
    then obtain k where "(k, m) \<in> set (nodes ?cache)" by (auto simp: lru_getAll_def)
    from each [OF this] show "id_p m \<noteq> A \<and> (id_p m = B \<longrightarrow> m = payload)" by simp
  qed
  then show ?thesis using gm mem by blast
qed

text \<open>
  C5 (the code departs from the claim). Claim: when the cache holds a text message under
  id A, an edit event with new id B and original id A leaves the edited content under B and
  no entry under A, so that \<open>getMessages\<close> has the edited text only at the new id. The
  listener deletes the key named by the event, and \<open>sendEditedText\<close> has stored a message
  under another key than its id (the defect of C6). On instance I: a text is sent (id A),
  its edit is sent (id B, stored under key A), and a confirmation of A arrives, which
  stores that message under its id B as well. The cache then holds the message with id B
  under the keys B and A. The edit event of B with new id C is projected: it stores C and
  deletes the key B, and \<open>getMessages\<close> returns the new text with id C and, from key A,
  still the message with id B and the text it replaces.
\<close>

theorem edit_leaves_message_under_other_key:
  "messages_of example_confirmed ''I'' =
     Some \<lparr>capacity = 100,
           nodes = [(''B'', push_confirmation
                             \<lparr>firstMessageId = ''A'', moreMessageIds = None,
                              confirmation_type = 0, from_c = ''U''\<rparr> example_edit),
                    (''A'', push_confirmation
                             \<lparr>firstMessageId = ''A'', moreMessageIds = None,
                              confirmation_type = 0, from_c = ''U''\<rparr> example_edit)]\<rparr>
 \<and> id_p example_edit = ''B''
 \<and> type_p example_edit_again = MESSAGE_EDIT
 \<and> id_p example_edit_again = ''C''
 \<and> content example_edit_again =
     EditedTextC \<lparr>text_t = ''Third text'', linkPreviews = None, mentions = None, quote = None,
                  expectsReadConfirmation = None, originalMessageId = ''B''\<rparr>
 \<and> fst (getMessages ''I'' ''X'' (emit ''I'' example_edit_again example_confirmed)) =
     Inr [example_edit_again,
          push_confirmation
            \<lparr>firstMessageId = ''A'', moreMessageIds = None,
             confirmation_type = 0, from_c = ''U''\<rparr> example_edit]
 \<and> id_p (push_confirmation
            \<lparr>firstMessageId = ''A'', moreMessageIds = None,
             confirmation_type = 0, from_c = ''U''\<rparr> example_edit) = ''B''
 \<and> content (push_confirmation
               \<lparr>firstMessageId = ''A'', moreMessageIds = None,
                confirmation_type = 0, from_c = ''U''\<rparr> example_edit) =
     EditedTextC \<lparr>text_t = ''Hello again'', linkPreviews = None, mentions = None, quote = None,
                  expectsReadConfirmation = None, originalMessageId = ''A''\<rparr>"
  by (simp add: example_defs example_edit_def example_sent_def example_edited_def
      example_confirmation_A_def example_confirmed_def example_edit_again_def lru_defs
      service_defs listener_defs sendText_def sendEditedText_def getMessages_def emit_def
      messages_of_def)

section \<open>C6: a clear event\<close>

text \<open>
  On a cache in which every message is stored under its own id, the listener removes
  exactly the entries of the cleared conversation.
\<close>

lemma clear_loop_nodes:
  assumes "\<forall>kv\<in>set todo. id_p (snd kv) = fst kv" and "distinct (map fst todo)"
  shows "nodes (clear_loop cid todo c) =
           filter (\<lambda>kv. \<not> (\<exists>m. (fst kv, m) \<in> set todo \<and> conversation m = cid)) (nodes c)"
  using assms
proof (induction todo arbitrary: c)
  case Nil
  then show ?case by simp
next
  case (Cons kv todo)
  have rest: "\<forall>kv\<in>set todo. id_p (snd kv) = fst kv" "distinct (map fst todo)"
    using Cons.prems by simp_all
  have key: "id_p (snd kv) = fst kv" and fresh: "fst kv \<notin> fst ` set todo"
    using Cons.prems by simp_all
  show ?case
  proof (cases "conversation (snd kv) = cid")
    case True
    have "nodes (clear_loop cid (kv # todo) c) =
            nodes (clear_loop cid todo (lru_delete (fst kv) c))"
      using True key fresh by (simp add: remove_key_absent)
    also have "\<dots> = filter (\<lambda>x. \<not> (\<exists>m. (fst x, m) \<in> set todo \<and> conversation m = cid))
                       (filter (\<lambda>x. fst x \<noteq> fst kv) (nodes c))"
      using Cons.IH [OF rest] by (simp add: lru_delete_def remove_key_def)
    also have "\<dots> = filter (\<lambda>x. \<not> (\<exists>m. (fst x, m) \<in> set (kv # todo) \<and> conversation m = cid))
                       (nodes c)"
      using True by (cases kv) (auto intro!: filter_cong)
    finally show ?thesis .
  next
    case False
    have "nodes (clear_loop cid (kv # todo) c) = nodes (clear_loop cid todo c)"
      using False by simp
    also have "\<dots> = filter (\<lambda>x. \<not> (\<exists>m. (fst x, m) \<in> set todo \<and> conversation m = cid)) (nodes c)"
      using Cons.IH [OF rest] .
    also have "\<dots> = filter (\<lambda>x. \<not> (\<exists>m. (fst x, m) \<in> set (kv # todo) \<and> conversation m = cid))
                       (nodes c)"
      using False by (cases kv) (auto intro!: filter_cong)
    finally show ?thesis .
  qed
qed

lemma on_CLEARED_keyed:
  assumes "content payload = ClearedC cid"
      and "\<forall>kv\<in>set (nodes cache). id_p (snd kv) = fst kv"
      and "distinct (map fst (nodes cache))"
  shows "nodes (on_CLEARED payload cache) =
           filter (\<lambda>kv. conversation (snd kv) \<noteq> cid) (nodes cache)"
proof -
  have "nodes (on_CLEARED payload cache) =
          filter (\<lambda>kv. \<not> (\<exists>m. (fst kv, m) \<in> set (nodes cache) \<and> conversation m = cid))
            (nodes cache)"
    using assms by (simp add: on_CLEARED_def clear_loop_nodes)
  also have "\<dots> = filter (\<lambda>kv. conversation (snd kv) \<noteq> cid) (nodes cache)"
  proof (rule filter_cong [OF refl])
    fix kv assume "kv \<in> set (nodes cache)"
    then have "\<And>m. (fst kv, m) \<in> set (nodes cache) \<Longrightarrow> m = snd kv"
      using assms(3) by (metis eq_key_imp_eq_value prod.collapse)
    with \<open>kv \<in> set (nodes cache)\<close>
    show "(\<not> (\<exists>m. (fst kv, m) \<in> set (nodes cache) \<and> conversation m = cid)) =
          (conversation (snd kv) \<noteq> cid)"
      by (metis prod.collapse)
  qed
  finally show ?thesis .
qed

text \<open>Three cached messages, two of conversation C1 and one of C2: clearing C1 leaves the one.\<close>

lemma clear_three_messages:
  "nodes (attachListeners (example_cleared ''C1'') example_three) = [(''M2'', example_text ''M2'' ''C2'')]"
  by (simp add: example_three_def example_defs example_cleared_def lru_defs listener_defs)

text \<open>
  C6 (the code departs from the claim). Claim: for every message cache, a clear event for
  conversation C removes exactly the cached messages whose conversation is C. The listener
  deletes by the \<open>id\<close> of each message, and \<open>sendEditedText\<close> stores the edited message,
  whose id is the new one, under the id of the message it replaces. After a text (id A) and
  its edit (id B) have been sent to conversation X, the cache holds the edit under A; the
  clear event for X deletes B, which has no entry, and \<open>getMessages\<close> for X still returns the
  edited message.
\<close>

theorem clear_leaves_edited_message:
  "fst (sendText example_env ''I'' ''X'' ''Hello from Jasmine'' None None None None None
          example_service) = Inr ''A''
 \<and> fst (sendEditedText example_env ''I'' ''X'' ''A'' ''Hello again'' None None None None
          example_sent) = Inr ''B''
 \<and> fst (getMessages ''I'' ''X'' example_edited) = Inr [example_edit]
 \<and> conversation example_edit = ''X''
 \<and> fst (getMessages ''I'' ''X'' (emit ''I'' (example_cleared ''X'') example_edited)) =
     Inr [example_edit]"
  by (simp add: example_defs example_cleared_def example_edit_def example_sent_def example_edited_def sendText_def sendEditedText_def getMessages_def emit_def lru_defs service_defs listener_defs)

section \<open>C7: a sent text is cached at once\<close>

text \<open>
  C7: let the Messaging Client keep its contract for a text to conversation X: the builder
  makes a payload of conversation X whose content is the text, and \<open>send\<close> resolves with a
  payload of the same conversation and content. Then after a successful \<open>sendText\<close> on a
  registered instance whose message cache was empty, \<open>getMessages\<close> for X returns exactly
  one message: its id is the id \<open>sendText\<close> returned, its conversation is X and its content
  is the text. No event has to arrive for that.
\<close>

theorem sendText_getMessages:
  assumes reg: "lru_lookup (cachedInstances s) i = Some inst"
      and empty: "nodes (messages inst) = []"
      and send_contract:
        "\<And>p p'. send env p = Inr p' \<Longrightarrow> conversation p' = conversation p \<and> content p' = content p"
      and builder_contract:
        "\<And>mid0 lps. conversation (createText (messageBuilder env) X msg mid0 lps me q e) = X
           \<and> (\<exists>tc. content (createText (messageBuilder env) X msg mid0 lps me q e) = TextC tc
                  \<and> text_t tc = msg)"
      and res: "sendText env i X msg lp me q e t s = (Inr mid, s')"
  shows "\<exists>m tc. fst (getMessages i X s') = Inr [m] \<and> id_p m = mid \<and> conversation m = X
              \<and> content m = TextC tc \<and> text_t tc = msg"
proof -
  from sendText_success [OF reg res] obtain sm mid0 lps sent where
    sent: "send env (createText (messageBuilder env) X msg mid0 lps me q e) = Inr sent"
    and sm: "sm = sent \<or> sm = sent\<lparr>content := stripLinkPreviews (content sent)\<rparr>"
    and mid: "id_p sm = mid"
    and svc: "service (account inst)"
    and reg': "lru_lookup (cachedInstances s') i = Some (inst\<lparr>messages := lru_set mid sm (messages inst)\<rparr>)"
    by blast
  from send_contract [OF sent] builder_contract [of mid0 lps] obtain tc where
    conv: "conversation sent = X" and tc: "content sent = TextC tc" "text_t tc = msg"
    by auto
  from sm conv have conv_sm: "conversation sm = X" by auto
  from sm tc obtain tc' where tc': "content sm = TextC tc'" "text_t tc' = msg"
    by (auto simp: stripLinkPreviews_def)
  have "nodes (lru_set mid sm (messages inst)) = [(mid, sm)]"
    using empty by (simp add: lru_set_def lru_keys_def)
  then have "fst (getMessages i X s') = Inr [sm]"
    using getMessages_registered [OF reg', of X] svc conv_sm by (simp add: lru_getAll_def)
  with mid conv_sm tc' show ?thesis by blast
qed

text \<open>C7 at the new instance I: the text "Hello from Jasmine" sent to conversation X.\<close>

theorem sendText_getMessages_witness:
  "lru_lookup (cachedInstances example_service) ''I'' = Some example_instance
 \<and> nodes (messages example_instance) = []
 \<and> fst (sendText example_env ''I'' ''X'' ''Hello from Jasmine'' None None None None None
          example_service) = Inr ''A''
 \<and> (\<exists>m tc. fst (getMessages ''I'' ''X'' example_sent) = Inr [m] \<and> id_p m = ''A''
        \<and> conversation m = ''X'' \<and> content m = TextC tc \<and> text_t tc = ''Hello from Jasmine'')"
proof -
  have empty: "nodes (messages example_instance) = []"
    by (simp add: example_defs lru_defs)
  have sc: "\<And>p p'. send example_env p = Inr p' \<Longrightarrow>
              conversation p' = conversation p \<and> content p' = content p"
    by (auto simp: example_defs)
  have bc: "\<And>mid0 lps.
              conversation (createText (messageBuilder example_env) ''X'' ''Hello from Jasmine''
                              mid0 lps None None None) = ''X''
            \<and> (\<exists>tc. content (createText (messageBuilder example_env) ''X'' ''Hello from Jasmine''
                                 mid0 lps None None None) = TextC tc
                   \<and> text_t tc = ''Hello from Jasmine'')"
    by (simp add: example_defs)
  have first: "fst (sendText example_env ''I'' ''X'' ''Hello from Jasmine'' None None None None None
                      example_service) = Inr ''A''"
    by (simp add: example_defs lru_defs service_defs sendText_def)
  then have res: "sendText example_env ''I'' ''X'' ''Hello from Jasmine'' None None None None None
                    example_service = (Inr ''A'', example_sent)"
    by (metis prod.collapse example_sent_def)
  show ?thesis
    using sendText_getMessages [OF example_service_lookup empty sc bc res]
      example_service_lookup empty first
    by simp
qed

section \<open>C8: the data of an asset\<close>

text \<open>
  C8: when an asset-data event arrives whose id has a cached placeholder with asset
  metadata, the cache afterwards holds, under that id, the data payload with the
  placeholder's \<open>original\<close> descriptor attached and its binary preview removed, and that is
  the only entry under the id.
\<close>

theorem asset_merge:
  assumes "type_p payload = ASSET"
      and "content payload = AssetC assetData"
      and "lru_lookup cache (id_p payload) = Some placeholder"
      and "content placeholder = AssetC metaData"
  shows "lru_lookup (attachListeners payload cache) (id_p payload) =
           Some (payload\<lparr>content := AssetC (assetData\<lparr>original := original metaData, preview := None\<rparr>)\<rparr>)
       \<and> filter (\<lambda>kv. fst kv = id_p payload) (nodes (attachListeners payload cache)) =
           [(id_p payload,
             payload\<lparr>content := AssetC (assetData\<lparr>original := original metaData, preview := None\<rparr>)\<rparr>)]"
  using assms
  by (simp add: attachListeners_def on_ASSET_def lru_get_def isAssetContent_def set_original_def
      original_of_def stripAsset_def lookup_set_same nodes_set_same)

text \<open>C8 at the file F: the metadata event first, then the data event.\<close>

theorem asset_merge_witness:
  "lru_lookup (attachListeners example_asset_meta (new_LRUCache DEFAULT_CAPACITY)) ''F'' =
     Some example_asset_meta
 \<and> lru_lookup
      (attachListeners example_asset_data
         (attachListeners example_asset_meta (new_LRUCache DEFAULT_CAPACITY))) ''F'' =
     Some (example_asset_data
             \<lparr>content := AssetC \<lparr>original = Some ''report.pdf'', uploaded = Some ''asset-key'',
                                  preview = None\<rparr>\<rparr>)"
proof -
  let ?cache = "attachListeners example_asset_meta (new_LRUCache DEFAULT_CAPACITY)"
  have h1: "type_p example_asset_data = ASSET" by (simp add: example_defs example_asset_data_def example_asset_meta_def)
  have h2: "content example_asset_data =
              AssetC \<lparr>original = None, uploaded = Some ''asset-key'', preview = Some ''bytes''\<rparr>"
    by (simp add: example_defs example_asset_data_def example_asset_meta_def)
  have h3: "lru_lookup ?cache (id_p example_asset_data) = Some example_asset_meta"
    by (simp add: example_defs example_asset_data_def example_asset_meta_def lru_defs listener_defs)
  have h4: "content example_asset_meta =
              AssetC \<lparr>original = Some ''report.pdf'', uploaded = None, preview = None\<rparr>"
    by (simp add: example_defs example_asset_data_def example_asset_meta_def)
  have "id_p example_asset_data = ''F''" by (simp add: example_defs example_asset_data_def example_asset_meta_def)
  with h3 asset_merge [OF h1 h2 h3 h4] show ?thesis by simp
qed

section \<open>C9: ephemeral confirmations of an unknown message\<close>

text \<open>
  C9: on a registered instance whose message cache has no entry for the first message id,
  \<open>sendEphemeralConfirmationDelivered\<close> and \<open>sendEphemeralConfirmationRead\<close> fail with the
  not-found error that names the message id, and make no call to the Messaging Client: no
  confirmation is sent.
\<close>

theorem ephemeral_confirmation_unknown_message:
  assumes "lru_lookup (cachedInstances s) i = Some inst"
      and "lru_lookup (messages inst) firstId = None"
  shows "fst (sendEphemeralConfirmationDelivered env i conv firstId moreIds s) =
           Inl (message_not_found firstId)
       \<and> client_calls (snd (sendEphemeralConfirmationDelivered env i conv firstId moreIds s)) =
           client_calls s
       \<and> fst (sendEphemeralConfirmationRead env i conv firstId moreIds s) =
           Inl (message_not_found firstId)
       \<and> client_calls (snd (sendEphemeralConfirmationRead env i conv firstId moreIds s)) =
           client_calls s"
proof -
  let ?s1 = "s\<lparr>cachedInstances := snd (lru_get i (cachedInstances s))\<rparr>"
  have reg: "lru_lookup (cachedInstances ?s1) i = Some inst"
    using assms(1) by (simp add: lookup_get)
  have miss: "fst (get_message i firstId ?s1) = None"
    and calls: "client_calls (snd (get_message i firstId ?s1)) = client_calls s"
    using get_message_miss [OF reg assms(2)] by simp_all
  have "\<And>t. fst (sendEphemeralConfirmation t env i conv firstId moreIds s) =
               Inl (message_not_found firstId)
           \<and> client_calls (snd (sendEphemeralConfirmation t env i conv firstId moreIds s)) =
               client_calls s"
    using miss calls
    by (cases "get_message i firstId ?s1")
       (simp add: sendEphemeralConfirmation_def getInstance_registered [OF assms(1)])
  then show ?thesis
    by (simp add: sendEphemeralConfirmationDelivered_def sendEphemeralConfirmationRead_def)
qed

text \<open>C9 at the new instance I, whose cache is empty, for the message M1.\<close>

theorem ephemeral_confirmation_unknown_message_witness:
  "lru_lookup (cachedInstances example_service) ''I'' = Some example_instance
 \<and> lru_lookup (messages example_instance) ''M1'' = None
 \<and> fst (sendEphemeralConfirmationDelivered example_env ''I'' ''X'' ''M1'' None example_service) =
     Inl (message_not_found ''M1'')
 \<and> client_calls
      (snd (sendEphemeralConfirmationDelivered example_env ''I'' ''X'' ''M1'' None example_service)) =
     client_calls example_service
 \<and> fst (sendEphemeralConfirmationRead example_env ''I'' ''X'' ''M1'' None example_service) =
     Inl (message_not_found ''M1'')
 \<and> client_calls
      (snd (sendEphemeralConfirmationRead example_env ''I'' ''X'' ''M1'' None example_service)) =
     client_calls example_service"
proof -
  have miss: "lru_lookup (messages example_instance) ''M1'' = None"
    by (simp add: example_defs lru_defs)
  show ?thesis
    using ephemeral_confirmation_unknown_message [OF example_service_lookup miss,
        of example_env "''X''" None]
      example_service_lookup miss
    by simp
qed

section \<open>C10: a sent edit is cached under the original id\<close>




end
